theory Spec2Isabelle
  imports Complex_Main
begin

section \<open>Circular number picker (the dial)\<close>

text \<open>
  The widget classes of the source are records.  The fields inherited from the host
  layout (position, size, padding, radius hints, start angle, direction) are the
  record \<open>circular_layout\<close>; \<open>number_picker\<close> extends it with the properties declared
  by \<open>CircularNumberPicker\<close>.  Python floats are idealised as reals.  Nothing below is
  proved about a result that depends on rounding: the one proof that goes through the
  trigonometry picks its points strictly inside a bin of the inverse mapping.  The canvas instructions and the
  label widgets are render-only and are left out.
\<close>

datatype error = ZeroDivisionError | ValueError

datatype direction = CW | CCW

record circular_layout =
  uid :: nat
  pos_x :: real
  pos_y :: real
  width :: real
  height :: real
  padding :: "real \<times> real \<times> real \<times> real"
  inner_radius_hint :: real
  outer_radius_hint :: real
  start_angle :: real
  direction :: direction

record number_picker = circular_layout +
  min_val :: int
  max_val :: int
  multiples_of :: int
  selected :: int

definition padding0 :: "'a circular_layout_scheme \<Rightarrow> real" where
  "padding0 w = (case padding w of (a, b, c, d) \<Rightarrow> a)"

definition padding1 :: "'a circular_layout_scheme \<Rightarrow> real" where
  "padding1 w = (case padding w of (a, b, c, d) \<Rightarrow> b)"

definition padding2 :: "'a circular_layout_scheme \<Rightarrow> real" where
  "padding2 w = (case padding w of (a, b, c, d) \<Rightarrow> c)"

definition padding3 :: "'a circular_layout_scheme \<Rightarrow> real" where
  "padding3 w = (case padding w of (a, b, c, d) \<Rightarrow> d)"

definition center_x :: "'a circular_layout_scheme \<Rightarrow> real" where
  "center_x w = pos_x w + width w / 2"

definition center_y :: "'a circular_layout_scheme \<Rightarrow> real" where
  "center_y w = pos_y w + height w / 2"

text \<open>The point \<open>(cx, cy)\<close> every method of the dial computes as the dial's centre.\<close>

definition dial_center :: "'a circular_layout_scheme \<Rightarrow> real \<times> real" where
  "dial_center w =
     (center_x w + padding0 w - padding2 w, center_y w + padding3 w - padding1 w)"

text \<open>The host widget's hit test: the bounding box, borders included.\<close>

definition collide_point :: "'a circular_layout_scheme \<Rightarrow> real \<times> real \<Rightarrow> bool" where
  "collide_point w p =
     (case p of (x, y) \<Rightarrow>
        pos_x w \<le> x \<and> x \<le> pos_x w + width w \<and> pos_y w \<le> y \<and> y \<le> pos_y w + height w)"

definition radians :: "real \<Rightarrow> real" where
  "radians d = d * pi / 180"

text \<open>Python's \<open>int\<close> on a float truncates towards zero.\<close>

definition py_int :: "real \<Rightarrow> int" where
  "py_int r = (if 0 \<le> r then \<lfloor>r\<rfloor> else \<lceil>r\<rceil>)"

text \<open>\<open>range(*self.range)\<close>: the integers from \<open>min\<close> up to, not including, \<open>max\<close>.\<close>

definition range_np :: "number_picker \<Rightarrow> int list" where
  "range_np p = [min_val p .. max_val p - 1]"

definition items :: "number_picker \<Rightarrow> int" where
  "items p = max_val p - min_val p"

text \<open>
  \<open>_get_shown_items\<close> counts the \<open>i\<close> of the range with \<open>i % multiples_of == 0\<close>.
  Python's \<open>%\<close> takes the sign of the divisor, as \<open>mod\<close> on \<open>int\<close> does, and raises
  on a zero divisor as soon as the loop body runs once.
\<close>

definition shown_items :: "number_picker \<Rightarrow> error + nat" where
  "shown_items p =
     (if multiples_of p = 0 \<and> range_np p \<noteq> [] then Inl ZeroDivisionError
      else Inr (foldl (\<lambda>c i. if i mod multiples_of p = 0 then c + 1 else c) 0 (range_np p)))"


definition pos_for_number :: "number_picker \<Rightarrow> int \<Rightarrow> error + (real \<times> real)" where
  "pos_for_number p n =
     (if items p = 0 then Inr (0, 0)
      else
        let radius = min (width p - padding0 p - padding2 p)
                         (height p - padding1 p - padding3 p) / 2;
            middle_r = radius * (inner_radius_hint p + outer_radius_hint p) / 2;
            cx = center_x p + padding0 p - padding2 p;
            cy = center_y p + padding3 p - padding1 p;
            sign = (if direction p = CW then - 1 else 1);
            angle_offset = (if direction p = CW then 2 * pi - radians (start_angle p)
                            else radians (start_angle p));
            quota = 2 * pi / real_of_int (items p)
        in case shown_items p of
             Inl e \<Rightarrow> Inl e
           | Inr shown \<Rightarrow>
               if shown = 0 then Inl ZeroDivisionError
               else
                 let mult_quota = 2 * pi / real shown;
                     angle = angle_offset + real_of_int n * sign * quota;
                     angle' = (if items p = int shown then angle + quota / 2
                               else angle - mult_quota / 2)
                 in Inr (cos angle' * middle_r + cx, sin angle' * middle_r + cy))"

text \<open>
  In \<open>number_at_pos\<close> the quotient \<open>ly / lx\<close> is reached only when neither vertical
  case applies; with \<open>lx = 0\<close> that leaves \<open>ly = 0\<close>, the dial's centre, where the
  division raises.
\<close>

definition number_at_pos :: "number_picker \<Rightarrow> real \<Rightarrow> real \<Rightarrow> error + int" where
  "number_at_pos p x y =
     (if items p = 0 then Inr (min_val p)
      else
        let cx = center_x p + padding0 p - padding2 p;
            cy = center_y p + padding3 p - padding1 p;
            lx = x - cx;
            ly = y - cy;
            quota = 2 * pi / real_of_int (items p)
        in case shown_items p of
             Inl e \<Rightarrow> Inl e
           | Inr shown \<Rightarrow>
               if shown = 0 then Inl ZeroDivisionError
               else if lx = 0 \<and> ly = 0 then Inl ZeroDivisionError
               else
                 let mult_quota = 2 * pi / real shown;
                     a0 = (if lx = 0 \<and> ly > 0 then pi / 2
                           else if lx = 0 \<and> ly < 0 then 3 * pi / 2
                           else
                             let b0 = arctan (ly / lx);
                                 b1 = (if lx < 0 \<and> ly > 0 then b0 + pi else b0);
                                 b2 = (if lx > 0 \<and> ly < 0 then b1 + 2 * pi else b1)
                             in (if lx < 0 \<and> ly < 0 then b2 + pi else b2));
                     a1 = a0 + radians (start_angle p);
                     a2 = (if direction p = CW then 2 * pi - a1 else a1);
                     a3 = (if mult_quota \<noteq> quota then a2 - mult_quota / 2 else a2);
                     angle = (if a3 < 0 then a3 + 2 * pi
                              else if a3 > 2 * pi then a3 - 2 * pi else a3)
                 in Inr (min (py_int (angle / quota) + min_val p) (max_val p - 1)))"




subsection \<open>Construction\<close>

text \<open>
  \<open>CircularNumberPicker.__init__\<close> lets the host constructor apply the keyword
  arguments (here \<open>min\<close>, \<open>max\<close>, \<open>multiples_of\<close>; the class defaults are 0, 0, 1) and
  then runs \<open>self.selected = self.min\<close>.  The two subclasses call it without range
  arguments and assign their own range afterwards.
\<close>

definition CircularNumberPicker_init ::
    "circular_layout \<Rightarrow> int \<Rightarrow> int \<Rightarrow> int \<Rightarrow> number_picker" where
  "CircularNumberPicker_init lay mn mx mo =
     \<lparr>uid = uid lay, pos_x = pos_x lay, pos_y = pos_y lay, width = width lay,
      height = height lay, padding = padding lay,
      inner_radius_hint = inner_radius_hint lay, outer_radius_hint = outer_radius_hint lay,
      start_angle = start_angle lay, direction = direction lay,
      min_val = mn, max_val = mx, multiples_of = mo, selected = mn\<rparr>"

definition CircularMinutePicker_init :: "circular_layout \<Rightarrow> number_picker" where
  "CircularMinutePicker_init lay =
     (CircularNumberPicker_init lay 0 0 1)
       \<lparr>min_val := 0, max_val := 60, multiples_of := 5, direction := CW\<rparr>"

definition CircularHourPicker_init :: "circular_layout \<Rightarrow> number_picker" where
  "CircularHourPicker_init lay =
     (CircularNumberPicker_init lay 0 0 1)
       \<lparr>min_val := 1, max_val := 13, multiples_of := 1, direction := CW\<rparr>"

text \<open>The two \<open>_update_start_angle\<close> callbacks, run once the range is set.\<close>

definition minute_update_start_angle :: "number_picker \<Rightarrow> error + number_picker" where
  "minute_update_start_angle p =
     (case shown_items p of
        Inl e \<Rightarrow> Inl e
      | Inr shown \<Rightarrow>
          if shown = 0 then Inl ZeroDivisionError
          else Inr (p\<lparr>start_angle := - (360 / real shown / 2) - 90\<rparr>))"

definition hour_update_start_angle :: "number_picker \<Rightarrow> error + number_picker" where
  "hour_update_start_angle p =
     (case shown_items p of
        Inl e \<Rightarrow> Inl e
      | Inr shown \<Rightarrow>
          if shown = 0 then Inl ZeroDivisionError
          else Inr (p\<lparr>start_angle := (360 / real shown / 2) - 90\<rparr>))"

subsection \<open>Pointer events\<close>

text \<open>
  A touch carries its position, the widgets that grabbed it and, while the host
  delivers it to a grabbing widget, that widget as \<open>grab_current\<close>.  Widgets are
  compared by identity, here by \<open>uid\<close>.  The inherited \<open>on_touch_move\<close> and
  \<open>on_touch_up\<close> only pass the touch on to the children, which are labels, so they
  leave the dial and the touch as they are.
\<close>

record touch =
  touch_pos :: "real \<times> real"
  grab_list :: "nat list"
  grab_current :: "nat option"

definition grab :: "touch \<Rightarrow> nat \<Rightarrow> touch" where
  "grab t w = t\<lparr>grab_list := grab_list t @ [w]\<rparr>"

definition ungrab :: "touch \<Rightarrow> nat \<Rightarrow> touch" where
  "ungrab t w = t\<lparr>grab_list := filter (\<lambda>v. v \<noteq> w) (grab_list t)\<rparr>"

definition on_touch_down :: "number_picker \<Rightarrow> touch \<Rightarrow> error + (number_picker \<times> touch)" where
  "on_touch_down p t =
     (if \<not> collide_point p (touch_pos t) then Inr (p, t)
      else
        let t' = grab t (uid p)
        in case number_at_pos p (fst (touch_pos t)) (snd (touch_pos t)) of
             Inl e \<Rightarrow> Inl e
           | Inr v \<Rightarrow> Inr (p\<lparr>selected := v\<rparr>, t'))"

definition on_touch_move :: "number_picker \<Rightarrow> touch \<Rightarrow> error + (number_picker \<times> touch)" where
  "on_touch_move p t =
     (if grab_current t \<noteq> Some (uid p) then Inr (p, t)
      else
        case number_at_pos p (fst (touch_pos t)) (snd (touch_pos t)) of
          Inl e \<Rightarrow> Inl e
        | Inr v \<Rightarrow> Inr (p\<lparr>selected := v\<rparr>, t))"

definition on_touch_up :: "number_picker \<Rightarrow> touch \<Rightarrow> error + (number_picker \<times> touch)" where
  "on_touch_up p t =
     (if grab_current t \<noteq> Some (uid p) then Inr (p, t)
      else Inr (p, ungrab t (uid p)))"


text \<open>
  How the host delivers the events of one pointer to a dial: a down event goes to
  \<open>on_touch_down\<close>; a move or up event goes to the handler once with no
  \<open>grab_current\<close> and, when the dial is in the touch's grab list, once more with the
  dial as \<open>grab_current\<close>.
\<close>

datatype pointer_event = Down "real \<times> real" | Move "real \<times> real" | Up "real \<times> real"

definition grabbed_pass ::
    "(number_picker \<Rightarrow> touch \<Rightarrow> error + (number_picker \<times> touch)) \<Rightarrow>
     number_picker \<Rightarrow> touch \<Rightarrow> error + (number_picker \<times> touch)" where
  "grabbed_pass handler p t =
     (case handler p (t\<lparr>grab_current := None\<rparr>) of
        Inl e \<Rightarrow> Inl e
      | Inr (p1, t1) \<Rightarrow>
          if uid p1 \<in> set (grab_list t1)
          then handler p1 (t1\<lparr>grab_current := Some (uid p1)\<rparr>)
          else Inr (p1, t1))"

fun deliver :: "number_picker \<Rightarrow> touch \<Rightarrow> pointer_event \<Rightarrow> error + (number_picker \<times> touch)" where
  "deliver p t (Down xy) = on_touch_down p (t\<lparr>touch_pos := xy, grab_current := None\<rparr>)"
| "deliver p t (Move xy) = grabbed_pass on_touch_move p (t\<lparr>touch_pos := xy\<rparr>)"
| "deliver p t (Up xy) = grabbed_pass on_touch_up p (t\<lparr>touch_pos := xy\<rparr>)"

fun deliver_all ::
    "number_picker \<Rightarrow> touch \<Rightarrow> pointer_event list \<Rightarrow> error + (number_picker \<times> touch)" where
  "deliver_all p t [] = Inr (p, t)"
| "deliver_all p t (ev # evs) =
     (case deliver p t ev of
        Inl e \<Rightarrow> Inl e
      | Inr (p1, t1) \<Rightarrow> deliver_all p1 t1 evs)"

fun is_down_inside :: "number_picker \<Rightarrow> pointer_event \<Rightarrow> bool" where
  "is_down_inside p (Down xy) = collide_point p xy"
| "is_down_inside p (Move xy) = False"
| "is_down_inside p (Up xy) = False"

section \<open>Circular time picker (the coordinator)\<close>

text \<open>
  The coordinator's properties are a record.  A property assignment notifies the
  property's observers before it returns, and only when the value changes; the
  observers are the handlers the source binds: \<open>on_time_list\<close> to \<open>time_list\<close> (the pair
  \<open>hours\<close>, \<open>minutes\<close>), \<open>on_ampm\<close> to \<open>_am\<close>, \<open>_switch_picker\<close> to \<open>picker\<close> and, once
  \<open>_switch_picker\<close> has run, \<open>on_selected\<close> to the shown dial's \<open>selected\<close>.  The
  handlers assign properties themselves, so they call each other; the calls are
  counted down with a fuel argument, and running out of fuel is \<open>None\<close>.  One
  observer is not modelled: the \<open>time\<close> alias, bound to \<open>time_list\<close>, builds
  \<open>datetime.time\<close> anew on every change and raises \<open>ValueError\<close> when \<open>hours\<close> is
  outside 0..23 or \<open>minutes\<close> outside 0..59, so the model follows the code only while
  both stay in range, as they do at every input used below.
\<close>

datatype picker_name = Hours | Minutes

record time_picker =
  hours :: int
  minutes :: int
  picker :: picker_name
  am :: bool
  h_picker :: "number_picker option"
  m_picker :: "number_picker option"
  bound :: bool

definition get_picker :: "time_picker \<Rightarrow> number_picker option" where
  "get_picker st = (if picker st = Hours then h_picker st else m_picker st)"

text \<open>The bare store into \<open>self._picker.selected\<close>, before any observer runs.\<close>

definition put_selected :: "int \<Rightarrow> time_picker \<Rightarrow> time_picker" where
  "put_selected v st =
     (if picker st = Hours
      then st\<lparr>h_picker := map_option (\<lambda>p. p\<lparr>selected := v\<rparr>) (h_picker st)\<rparr>
      else st\<lparr>m_picker := map_option (\<lambda>p. p\<lparr>selected := v\<rparr>) (m_picker st)\<rparr>)"

fun set_hours :: "nat \<Rightarrow> int \<Rightarrow> time_picker \<Rightarrow> time_picker option"
and set_minutes :: "nat \<Rightarrow> int \<Rightarrow> time_picker \<Rightarrow> time_picker option"
and set_selected :: "nat \<Rightarrow> int \<Rightarrow> time_picker \<Rightarrow> time_picker option"
and on_selected :: "nat \<Rightarrow> time_picker \<Rightarrow> time_picker option"
and on_time_list :: "nat \<Rightarrow> time_picker \<Rightarrow> time_picker option"
where
  "set_hours n v st =
     (if v = hours st then Some st else on_time_list n (st\<lparr>hours := v\<rparr>))"
| "set_minutes n v st =
     (if v = minutes st then Some st else on_time_list n (st\<lparr>minutes := v\<rparr>))"
| "set_selected n v st =
     (case get_picker st of
        None \<Rightarrow> Some st
      | Some p \<Rightarrow>
          if v = selected p then Some st
          else if bound st then on_selected n (put_selected v st)
          else Some (put_selected v st))"
| "on_selected 0 st = None"
| "on_selected (Suc n) st =
     (case get_picker st of
        None \<Rightarrow> Some st
      | Some p \<Rightarrow>
          (case picker st of
             Hours \<Rightarrow>
               let h0 = (if am st then selected p else selected p + 12);
                   h1 = (if h0 = 24 \<and> \<not> am st then 12
                         else if h0 = 12 \<and> am st then 0 else h0)
               in set_hours n h1 st
           | Minutes \<Rightarrow> set_minutes n (selected p) st))"
| "on_time_list 0 st = None"
| "on_time_list (Suc n) st =
     (case get_picker st of
        None \<Rightarrow> Some st
      | Some p \<Rightarrow>
          (case picker st of
             Hours \<Rightarrow>
               set_selected n
                 (if hours st = 0 then 12
                  else if am st \<and> hours st \<noteq> 0 then hours st
                  else hours st - 12) st
           | Minutes \<Rightarrow> set_selected n (minutes st) st))"

text \<open>Assigning the pair \<open>time_list\<close> stores both components and notifies once.\<close>

definition set_time_list :: "nat \<Rightarrow> int \<times> int \<Rightarrow> time_picker \<Rightarrow> time_picker option" where
  "set_time_list n hm st =
     (if hm = (hours st, minutes st) then Some st
      else on_time_list n (st\<lparr>hours := fst hm, minutes := snd hm\<rparr>))"

definition on_ampm :: "nat \<Rightarrow> time_picker \<Rightarrow> time_picker option" where
  "on_ampm n st =
     (if am st then set_hours n (if hours st < 12 then hours st else hours st - 12) st
      else set_hours n (if hours st \<ge> 12 then hours st else hours st + 12) st)"

definition set_am :: "nat \<Rightarrow> bool \<Rightarrow> time_picker \<Rightarrow> time_picker option" where
  "set_am n b st = (if b = am st then Some st else on_ampm n (st\<lparr>am := b\<rparr>))"

text \<open>
  Of \<open>_switch_picker\<close> only the rebinding of \<open>on_selected\<close> to the dial now shown
  matters here; the rest is layout and animation.
\<close>

definition switch_picker :: "time_picker \<Rightarrow> time_picker" where
  "switch_picker st = st\<lparr>bound := True\<rparr>"

definition set_picker :: "picker_name \<Rightarrow> time_picker \<Rightarrow> time_picker" where
  "set_picker k st = (if k = picker st then st else switch_picker (st\<lparr>picker := k\<rparr>))"

datatype ref_name = RefHours | RefMinutes | RefAm | RefPm

fun on_ref_press :: "nat \<Rightarrow> ref_name \<Rightarrow> time_picker \<Rightarrow> time_picker option" where
  "on_ref_press n RefHours st = Some (set_picker Hours st)"
| "on_ref_press n RefMinutes st = Some (set_picker Minutes st)"
| "on_ref_press n RefAm st = set_am n True st"
| "on_ref_press n RefPm st = set_am n False st"

subsection \<open>The \<open>time\<close> alias\<close>

record py_time =
  hour :: int
  minute :: int
  second :: int
  microsecond :: int

text \<open>\<open>datetime.time(h, m)\<close> raises \<open>ValueError\<close> outside 0..23 and 0..59.\<close>

definition datetime_time :: "int \<Rightarrow> int \<Rightarrow> error + py_time" where
  "datetime_time h m =
     (if 0 \<le> h \<and> h < 24 \<and> 0 \<le> m \<and> m < 60
      then Inr \<lparr>hour = h, minute = m, second = 0, microsecond = 0\<rparr>
      else Inl ValueError)"

definition get_time :: "time_picker \<Rightarrow> error + py_time" where
  "get_time st = datetime_time (hours st) (minutes st)"

definition set_time :: "nat \<Rightarrow> py_time \<Rightarrow> time_picker \<Rightarrow> time_picker option" where
  "set_time n dt st = set_time_list n (hour dt, minute dt) st"

subsection \<open>Construction and first frame\<close>

text \<open>
  The constructor stores the keyword values of \<open>hours\<close> and \<open>minutes\<close> (defaults 0),
  clears \<open>_am\<close> when \<open>hours >= 12\<close>, and creates the two dials.  It schedules
  \<open>on_selected\<close>, \<open>on_time_list\<close> and the first \<open>_switch_picker\<close> for the next frame.
\<close>

definition CircularTimePicker_init ::
    "int \<Rightarrow> int \<Rightarrow> circular_layout \<Rightarrow> circular_layout \<Rightarrow> time_picker" where
  "CircularTimePicker_init h m hlay mlay =
     \<lparr>hours = h, minutes = m, picker = Hours, am = (\<not> h \<ge> 12),
      h_picker = Some (CircularHourPicker_init hlay),
      m_picker = Some (CircularMinutePicker_init mlay),
      bound = False\<rparr>"

definition first_frame :: "nat \<Rightarrow> time_picker \<Rightarrow> time_picker option" where
  "first_frame n st =
     (case on_selected n st of
        None \<Rightarrow> None
      | Some st1 \<Rightarrow>
          (case on_time_list n st1 of
             None \<Rightarrow> None
           | Some st2 \<Rightarrow> Some (switch_picker st2)))"

text \<open>
  A layout of 100 by 100 at the origin with the host's default radius hints, used in
  examples.
\<close>

definition default_layout :: "nat \<Rightarrow> circular_layout" where
  "default_layout w =
     \<lparr>uid = w, pos_x = 0, pos_y = 0, width = 100, height = 100, padding = (0, 0, 0, 0),
      inner_radius_hint = 6 / 10, outer_radius_hint = 1, start_angle = 0, direction = CCW\<rparr>"


subsection \<open>Example states\<close>

text \<open>
  \<open>fresh_picker\<close> is a time picker built with no arguments, after its first frame:
  midnight, AM, the hour dial shown with 12 selected (see \<open>first_frame_default\<close>).
\<close>

definition fresh_picker :: time_picker where
  "fresh_picker =
     \<lparr>hours = 0, minutes = 0, picker = Hours, am = True,
      h_picker = Some ((CircularHourPicker_init (default_layout 1))\<lparr>selected := 12\<rparr>),
      m_picker = Some (CircularMinutePicker_init (default_layout 2)),
      bound = True\<rparr>"


definition empty_picker :: number_picker where
  "empty_picker = CircularNumberPicker_init (default_layout 0) 0 0 1"



text \<open>An hour dial and a pointer far outside it that no widget has grabbed.\<close>

definition hour_dial :: number_picker where
  "hour_dial = CircularHourPicker_init (default_layout 1)"

definition stray_touch :: touch where
  "stray_touch = \<lparr>touch_pos = (500, 500), grab_list = [], grab_current = None\<rparr>"

section \<open>Properties of the dial\<close>

subsection \<open>The inverse mapping around the centre\<close>






















subsection \<open>Tick labels\<close>










subsection \<open>Empty range\<close>

text \<open>
  C7, as the code has it.  When \<open>items\<close> is 0 neither mapping reaches a division: the
  forward mapping returns the fixed point \<open>(0, 0)\<close> for every number, and the inverse
  mapping returns \<open>min\<close> for every point.
\<close>

theorem degenerate_range:
  assumes "items p = 0"
  shows "pos_for_number p n = Inr (0, 0) \<and> number_at_pos p x y = Inr (min_val p)"
  using assms by (simp add: pos_for_number_def number_at_pos_def)

theorem degenerate_range_witness:
  "items empty_picker = 0 \<and> pos_for_number empty_picker 3 = Inr (0, 0)
   \<and> number_at_pos empty_picker 70 20 = Inr 0"
proof -
  have a: "items empty_picker = 0"
    by (simp add: items_def empty_picker_def CircularNumberPicker_init_def)
  have "min_val empty_picker = 0"
    by (simp add: empty_picker_def CircularNumberPicker_init_def)
  with a degenerate_range [OF a, of 3 70 20] show ?thesis by simp
qed

text \<open>
  C7 as stated fails for a dial that is not centred on the origin: the default 100 by
  100 dial has its centre at \<open>(50, 50)\<close>, and the forward mapping still returns
  \<open>(0, 0)\<close>.
\<close>

theorem degenerate_range_counterexample:
  "items empty_picker = 0 \<and> pos_for_number empty_picker 0 = Inr (0, 0)
   \<and> dial_center empty_picker = (50, 50)
   \<and> pos_for_number empty_picker 0 \<noteq> Inr (dial_center empty_picker)"
  by (simp add: pos_for_number_def items_def empty_picker_def CircularNumberPicker_init_def
      default_layout_def dial_center_def center_x_def center_y_def padding0_def padding1_def
      padding2_def padding3_def)

subsection \<open>Pointer capture\<close>

lemma grabbed_pass_move:
  "uid p \<notin> set (grab_list t) \<Longrightarrow>
   grabbed_pass on_touch_move p t = Inr (p, t\<lparr>grab_current := None\<rparr>)"
  by (simp add: grabbed_pass_def on_touch_move_def)

lemma grabbed_pass_up:
  "uid p \<notin> set (grab_list t) \<Longrightarrow>
   grabbed_pass on_touch_up p t = Inr (p, t\<lparr>grab_current := None\<rparr>)"
  by (simp add: grabbed_pass_def on_touch_up_def)

lemma deliver_no_capture:
  assumes "uid p \<notin> set (grab_list t)" and "\<not> is_down_inside p ev"
  shows "\<exists>t'. deliver p t ev = Inr (p, t') \<and> grab_list t' = grab_list t"
proof (cases ev)
  case (Down xy)
  with assms show ?thesis by (simp add: on_touch_down_def)
next
  case (Move xy)
  with assms show ?thesis by (simp add: grabbed_pass_move)
next
  case (Up xy)
  with assms show ?thesis by (simp add: grabbed_pass_up)
qed

lemma deliver_all_no_capture:
  "uid p \<notin> set (grab_list t) \<Longrightarrow> \<forall>ev\<in>set evs. \<not> is_down_inside p ev \<Longrightarrow>
   \<exists>t'. deliver_all p t evs = Inr (p, t') \<and> grab_list t' = grab_list t"
proof (induction evs arbitrary: t)
  case Nil
  then show ?case by simp
next
  case (Cons ev evs)
  from Cons.prems have "\<not> is_down_inside p ev" by simp
  with Cons.prems(1) obtain t1 where
    d: "deliver p t ev = Inr (p, t1)" and g: "grab_list t1 = grab_list t"
    using deliver_no_capture by blast
  from g Cons.prems have "uid p \<notin> set (grab_list t1)" by simp
  moreover from Cons.prems have "\<forall>e\<in>set evs. \<not> is_down_inside p e" by simp
  ultimately obtain t' where
    "deliver_all p t1 evs = Inr (p, t')" and "grab_list t' = grab_list t1"
    using Cons.IH by blast
  with d g show ?case by simp
qed

text \<open>
  C9.  A move event delivered while the dial is not the touch's \<open>grab_current\<close> leaves
  the dial, and so \<open>selected\<close>, as it is.  A down event outside the hit region leaves
  the dial and the touch as they are, so no capture begins.  Over any sequence of
  events of a pointer the dial has not grabbed, in which no down event falls inside
  the hit region, the dial is unchanged and still has not grabbed the pointer.
\<close>

theorem pointer_capture:
  "(grab_current t \<noteq> Some (uid p) \<longrightarrow> on_touch_move p t = Inr (p, t))
   \<and> (\<not> collide_point p (touch_pos t) \<longrightarrow> on_touch_down p t = Inr (p, t))
   \<and> (uid p \<notin> set (grab_list t) \<and> (\<forall>ev\<in>set evs. \<not> is_down_inside p ev) \<longrightarrow>
        (\<exists>t'. deliver_all p t evs = Inr (p, t') \<and> grab_list t' = grab_list t))"
  using deliver_all_no_capture [of p t evs]
  by (simp add: on_touch_move_def on_touch_down_def)

theorem pointer_capture_witness:
  "on_touch_move hour_dial stray_touch = Inr (hour_dial, stray_touch)
   \<and> on_touch_down hour_dial stray_touch = Inr (hour_dial, stray_touch)
   \<and> (\<exists>t'. deliver_all hour_dial stray_touch [Down (500, 500), Move (50, 60), Up (50, 60)]
              = Inr (hour_dial, t') \<and> grab_list t' = [])"
proof -
  have a: "grab_current stray_touch \<noteq> Some (uid hour_dial)"
    by (simp add: stray_touch_def)
  have b: "\<not> collide_point hour_dial (touch_pos stray_touch)"
    by (simp add: stray_touch_def hour_dial_def collide_point_def CircularHourPicker_init_def
        CircularNumberPicker_init_def default_layout_def)
  have c: "uid hour_dial \<notin> set (grab_list stray_touch)"
    by (simp add: stray_touch_def)
  have d: "\<forall>ev\<in>set [Down (500, 500), Move (50, 60), Up (50, 60)]. \<not> is_down_inside hour_dial ev"
    by (simp add: hour_dial_def collide_point_def CircularHourPicker_init_def
        CircularNumberPicker_init_def default_layout_def)
  have e: "grab_list stray_touch = []" by (simp add: stray_touch_def)
  from a b c d e
    pointer_capture [of stray_touch hour_dial "[Down (500, 500), Move (50, 60), Up (50, 60)]"]
  show ?thesis by simp
qed


section \<open>Properties of the coordinator\<close>

lemmas model_defs = fresh_picker_def get_picker_def put_selected_def Let_def
  set_time_list_def set_time_def set_am_def on_ampm_def get_time_def datetime_time_def
  CircularHourPicker_init_def CircularMinutePicker_init_def CircularNumberPicker_init_def

text \<open>
  The constructor's three scheduled callbacks take a picker built with no arguments
  to \<open>fresh_picker\<close>.
\<close>

lemma first_frame_default:
  "first_frame 2 (CircularTimePicker_init 0 0 (default_layout 1) (default_layout 2))
     = Some fresh_picker"
  by (simp add: first_frame_def CircularTimePicker_init_def fresh_picker_def numeral_2_eq_2
      get_picker_def put_selected_def switch_picker_def CircularHourPicker_init_def
      CircularMinutePicker_init_def CircularNumberPicker_init_def)

lemma fuel2: "2 \<le> n \<Longrightarrow> \<exists>m. n = Suc (Suc m)"
  by (metis Suc_le_D numeral_2_eq_2 Suc_le_mono)

lemma fuel3: "3 \<le> n \<Longrightarrow> \<exists>m. n = Suc (Suc (Suc m))"
  by (metis Suc_le_D numeral_3_eq_3 Suc_le_mono)

lemma fuel5: "5 \<le> n \<Longrightarrow> \<exists>m. n = Suc (Suc (Suc (Suc (Suc m))))"
proof -
  assume "5 \<le> n"
  then have "3 \<le> n - 2" by simp
  then obtain m where "n - 2 = Suc (Suc (Suc m))" using fuel3 by blast
  with \<open>5 \<le> n\<close> have "n = Suc (Suc (Suc (Suc (Suc m))))" by simp
  then show ?thesis by blast
qed

text \<open>
  The handlers stop calling each other after at most five calls, whatever the state:
  with five or more units of fuel both of them return.
\<close>

lemma on_selected_terminates:
  "\<exists>st'. on_selected (Suc (Suc (Suc (Suc (Suc m))))) st = Some st'"
  by (auto simp: get_picker_def put_selected_def Let_def
           split: if_splits option.splits picker_name.splits)

lemma on_time_list_terminates:
  "\<exists>st'. on_time_list (Suc (Suc (Suc (Suc (Suc m))))) st = Some st'"
  by (auto simp: get_picker_def put_selected_def Let_def
           split: if_splits option.splits picker_name.splits)

lemma cascade_terminates:
  assumes "5 \<le> n"
  shows "(\<exists>st'. on_selected n st = Some st') \<and> (\<exists>st'. on_time_list n st = Some st')"
proof -
  from assms obtain m where "n = Suc (Suc (Suc (Suc (Suc m))))" using fuel5 by blast
  with on_selected_terminates [of m st] on_time_list_terminates [of m st]
  show ?thesis by simp
qed

subsection \<open>From the dial to the time\<close>

text \<open>
  C2.  Once \<open>on_selected\<close> is bound to the shown dial, a change of that dial's
  \<open>selected\<close> to \<open>v\<close> ends, with three or more units of fuel, in a state whose time
  is as the claim says: on the hour dial, for \<open>v\<close> in 1..12, \<open>hours\<close> is \<open>v\<close> (AM) or
  \<open>v + 12\<close> (PM) for \<open>v\<close> up to 11, and 0 (AM) or 12 (PM) for \<open>v = 12\<close>; on the minute
  dial \<open>minutes\<close> is \<open>v\<close>.  The other component and the AM flag keep their values.
\<close>

theorem selected_sync:
  assumes "bound st" and "get_picker st = Some p" and "v \<noteq> selected p" and "3 \<le> n"
  shows "(picker st = Hours \<and> 1 \<le> v \<and> v \<le> 12 \<longrightarrow>
            (\<exists>st'. set_selected n v st = Some st'
               \<and> hours st' = (if v = 12 then (if am st then 0 else 12)
                              else if am st then v else v + 12)
               \<and> minutes st' = minutes st \<and> am st' = am st))
       \<and> (picker st = Minutes \<longrightarrow>
            (\<exists>st'. set_selected n v st = Some st' \<and> minutes st' = v
               \<and> hours st' = hours st \<and> am st' = am st))"
proof -
  from assms(4) obtain m where n: "n = Suc (Suc (Suc m))" using fuel3 by blast
  show ?thesis
    using assms(1-3) unfolding n
    by (auto simp: get_picker_def put_selected_def Let_def split: if_splits option.splits)
qed

theorem selected_sync_witness:
  "\<exists>st'. set_selected 3 7 fresh_picker = Some st' \<and> hours st' = 7 \<and> minutes st' = 0 \<and> am st'"
proof -
  let ?p = "(CircularHourPicker_init (default_layout 1))\<lparr>selected := 12\<rparr>"
  have "bound fresh_picker" "get_picker fresh_picker = Some ?p" "7 \<noteq> selected ?p"
    "(3::nat) \<le> 3" "picker fresh_picker = Hours" "am fresh_picker" "minutes fresh_picker = 0"
    by (simp_all add: fresh_picker_def get_picker_def)
  with selected_sync [of fresh_picker ?p 7 3] show ?thesis by simp
qed

subsection \<open>The AM/PM toggle\<close>

lemma on_time_list_settles:
  assumes "am st \<longleftrightarrow> hours st < 12" and "0 \<le> hours st" and "hours st < 24"
  shows "\<exists>st'. on_time_list (Suc (Suc m)) st = Some st' \<and> hours st' = hours st
           \<and> am st' = am st \<and> minutes st' = minutes st"
  using assms
  by (auto simp: get_picker_def put_selected_def Let_def
           split: if_splits option.splits picker_name.splits)

lemma toggle_to_am:
  assumes "\<not> am st" and "0 \<le> hours st" and "hours st < 24" and "2 \<le> n"
  shows "\<exists>st'. set_am n True st = Some st' \<and> am st'
           \<and> hours st' = (if hours st \<ge> 12 then hours st - 12 else hours st)
           \<and> minutes st' = minutes st"
proof -
  from assms(4) obtain m where n: "n = Suc (Suc m)" using fuel2 by blast
  show ?thesis
  proof (cases "hours st \<ge> 12")
    case True
    let ?s = "st\<lparr>am := True, hours := hours st - 12\<rparr>"
    have "am ?s \<longleftrightarrow> hours ?s < 12" "0 \<le> hours ?s" "hours ?s < 24"
      using True assms by simp_all
    from on_time_list_settles [OF this, of m] obtain st' where
      "on_time_list (Suc (Suc m)) ?s = Some st'" "hours st' = hours ?s"
      "am st' = am ?s" "minutes st' = minutes ?s" by blast
    with True assms(1) show ?thesis
      unfolding n by (simp add: set_am_def on_ampm_def)
  next
    case False
    with assms(1) show ?thesis
      unfolding n by (simp add: set_am_def on_ampm_def)
  qed
qed

lemma toggle_to_pm:
  assumes "am st" and "0 \<le> hours st" and "hours st < 24" and "2 \<le> n"
  shows "\<exists>st'. set_am n False st = Some st' \<and> \<not> am st'
           \<and> hours st' = (if hours st < 12 then hours st + 12 else hours st)
           \<and> minutes st' = minutes st"
proof -
  from assms(4) obtain m where n: "n = Suc (Suc m)" using fuel2 by blast
  show ?thesis
  proof (cases "hours st < 12")
    case True
    let ?s = "st\<lparr>am := False, hours := hours st + 12\<rparr>"
    have "am ?s \<longleftrightarrow> hours ?s < 12" "0 \<le> hours ?s" "hours ?s < 24"
      using True assms by simp_all
    from on_time_list_settles [OF this, of m] obtain st' where
      "on_time_list (Suc (Suc m)) ?s = Some st'" "hours st' = hours ?s"
      "am st' = am ?s" "minutes st' = minutes ?s" by blast
    with True assms(1) show ?thesis
      unfolding n by (simp add: set_am_def on_ampm_def)
  next
    case False
    with assms(1) show ?thesis
      unfolding n by (simp add: set_am_def on_ampm_def)
  qed
qed

text \<open>
  The toggle on its own does what it is meant to do.  For \<open>hours\<close> in 0..23 and two
  or more units of fuel:
  changing the flag from PM to AM subtracts 12 exactly when \<open>hours >= 12\<close> and leaves
  \<open>hours\<close> in 0..11; changing it from AM to PM adds 12 exactly when \<open>hours < 12\<close> and
  leaves \<open>hours\<close> in 12..23; and from a state that is AM with \<open>hours < 12\<close>, toggling
  to PM and back to AM restores \<open>hours\<close>.
\<close>

lemma ampm_toggle:
  assumes "0 \<le> hours st" and "hours st < 24" and "2 \<le> n"
  shows "(\<not> am st \<longrightarrow>
            (\<exists>st'. set_am n True st = Some st' \<and> am st'
               \<and> hours st' = (if hours st \<ge> 12 then hours st - 12 else hours st)
               \<and> 0 \<le> hours st' \<and> hours st' < 12))
       \<and> (am st \<longrightarrow>
            (\<exists>st'. set_am n False st = Some st' \<and> \<not> am st'
               \<and> hours st' = (if hours st < 12 then hours st + 12 else hours st)
               \<and> 12 \<le> hours st' \<and> hours st' < 24))
       \<and> (am st \<and> hours st < 12 \<longrightarrow>
            (\<exists>st1 st2. set_am n False st = Some st1 \<and> set_am n True st1 = Some st2
               \<and> am st2 \<and> hours st2 = hours st))"
proof (intro conjI impI)
  assume "\<not> am st"
  from toggle_to_am [OF this assms] obtain st' where
    "set_am n True st = Some st'" "am st'"
    "hours st' = (if hours st \<ge> 12 then hours st - 12 else hours st)" by blast
  with assms show "\<exists>st'. set_am n True st = Some st' \<and> am st'
               \<and> hours st' = (if hours st \<ge> 12 then hours st - 12 else hours st)
               \<and> 0 \<le> hours st' \<and> hours st' < 12"
    by (auto split: if_splits)
next
  assume "am st"
  from toggle_to_pm [OF this assms] obtain st' where
    "set_am n False st = Some st'" "\<not> am st'"
    "hours st' = (if hours st < 12 then hours st + 12 else hours st)" by blast
  with assms show "\<exists>st'. set_am n False st = Some st' \<and> \<not> am st'
               \<and> hours st' = (if hours st < 12 then hours st + 12 else hours st)
               \<and> 12 \<le> hours st' \<and> hours st' < 24"
    by (auto split: if_splits)
next
  assume a: "am st \<and> hours st < 12"
  then have "am st" by simp
  from toggle_to_pm [OF this assms] a obtain st1 where
    1: "set_am n False st = Some st1" "\<not> am st1" "hours st1 = hours st + 12" by auto
  with assms a have "0 \<le> hours st1" "hours st1 < 24" by simp_all
  from toggle_to_am [OF 1(2) this assms(3)] 1(3) assms obtain st2 where
    "set_am n True st1 = Some st2" "am st2" "hours st2 = hours st" by auto
  with 1 show "\<exists>st1 st2. set_am n False st = Some st1 \<and> set_am n True st1 = Some st2
               \<and> am st2 \<and> hours st2 = hours st" by blast
qed

lemma ampm_toggle_fresh:
  "\<exists>st1 st2. set_am 3 False fresh_picker = Some st1 \<and> set_am 3 True st1 = Some st2
     \<and> am st2 \<and> hours st2 = 0"
proof -
  have "0 \<le> hours fresh_picker" "hours fresh_picker < 24" "(2::nat) \<le> 3"
    "am fresh_picker \<and> hours fresh_picker < 12" "hours fresh_picker = 0"
    by (simp_all add: fresh_picker_def)
  with ampm_toggle [of fresh_picker 3] show ?thesis by simp
qed

text \<open>
  C4 at its failing input: after \<open>hours\<close> is assigned 15 on the fresh picker the flag
  is still AM, the state reported for C5 below; toggling to PM leaves 15, and toggling
  back to AM gives 3 where the claim restores 15.
\<close>

theorem ampm_toggle_stale_flag:
  "map_option hours (set_hours 3 15 fresh_picker) = Some 15
   \<and> map_option am (set_hours 3 15 fresh_picker) = Some True
   \<and> map_option hours
       (Option.bind (Option.bind (set_hours 3 15 fresh_picker) (set_am 3 False)) (set_am 3 True))
     = Some 3"
  by (simp add: model_defs eval_nat_numeral)

subsection \<open>Where the code leaves the claims\<close>

text \<open>
  C5 at its failing input: the fresh picker is at midnight and AM; assigning
  \<open>hours = 15\<close> ends with \<open>hours = 15\<close> and the flag still AM.  No handler writes
  \<open>_am\<close> when \<open>hours\<close> changes; only the constructor derives it from \<open>hours\<close>.
\<close>

theorem am_flag_stale:
  "map_option hours (set_hours 3 15 fresh_picker) = Some 15
   \<and> map_option am (set_hours 3 15 fresh_picker) = Some True"
  by (simp add: model_defs eval_nat_numeral)

text \<open>
  C3 at its failing input: assigning \<open>time_list = [15, 45]\<close> on the fresh picker, hour
  dial shown, ends with the hour dial's \<open>selected\<close> at 15 and the flag still AM, where
  the claim has 3 and PM.
\<close>

theorem time_list_sync_stale:
  "map_option (\<lambda>s. (hours s, minutes s, map_option selected (h_picker s), am s))
     (set_time_list 3 (15, 45) fresh_picker) = Some (15, 45, Some 15, True)"
  by (simp add: model_defs eval_nat_numeral)

text \<open>
  C10 at its failing input: on the fresh picker the pointer selects 5 (05:00, AM); then
  \<open>time\<close> is assigned \<open>datetime.time(12, 0)\<close>.  \<open>on_time_list\<close> stores 12 in the hour
  dial, \<open>on_selected\<close> reads 12 under the stale AM flag as midnight, and \<open>time\<close> reads
  back as \<open>datetime.time(0, 0)\<close>.
\<close>

theorem time_alias_noon:
  "datetime_time 12 0 = Inr \<lparr>hour = 12, minute = 0, second = 0, microsecond = 0\<rparr>
   \<and> map_option (\<lambda>s. (hours s, minutes s, am s)) (set_selected 3 5 fresh_picker)
       = Some (5, 0, True)
   \<and> map_option get_time
       (Option.bind (set_selected 3 5 fresh_picker)
          (set_time 4 \<lparr>hour = 12, minute = 0, second = 0, microsecond = 0\<rparr>))
     = Some (datetime_time 0 0)"
  by (simp add: model_defs eval_nat_numeral)

text \<open>
  C6 at its failing inputs: a newly built hour dial has \<open>selected = 0\<close> with the range
  1..12, because \<open>selected\<close> is taken from \<open>min\<close> before the subclass sets the range;
  and pressing PM on the fresh picker (noon) makes \<open>on_time_list\<close> store 0 in the
  hour dial.
\<close>

theorem hour_dial_selected_out_of_range:
  "selected (CircularHourPicker_init (default_layout 1)) = 0
   \<and> min_val (CircularHourPicker_init (default_layout 1)) = 1
   \<and> max_val (CircularHourPicker_init (default_layout 1)) = 13
   \<and> map_option (\<lambda>s. (hours s, map_option selected (h_picker s)))
       (on_ref_press 3 RefPm fresh_picker) = Some (12, Some 0)"
  by (simp add: model_defs eval_nat_numeral)

end
